theory Spec2Isabelle
  imports Complex_Main
begin

section \<open>Data model of AnalystPortal\<close>

text \<open>
  The component \<open>TravelDataAnalyst\<close> of \<open>src/AnalystPortal.js\<close> keeps five pieces of
  React state and changes them in four handlers (\<open>onFileChange\<close>, \<open>removeFile\<close>,
  \<open>processDocuments\<close>, and two inline \<open>onClick\<close> handlers). The embedding passes the state
  explicitly. The three things the handlers await or call without defining them
  (\<open>fileToBase64\<close>'s \<open>FileReader\<close>, the \<open>GoogleGenAI\<close> client, \<open>JSON.parse\<close>) are
  fields of an environment record, so every theorem holds for whatever they do.

  Numbers of parsed JSON are rationals: every finite double is one, and the handlers do
  no arithmetic on them. Names, identifiers, property keys and messages are strings that
  the handlers only compare for equality or emptiness. The one string whose length and
  letters matter is the currency token of \<open>formatCurrency\<close>, which is modelled as its
  sequence of UTF-16 code units.
\<close>

subsection \<open>Values returned by JSON.parse\<close>

text \<open>
  \<open>JSON.parse(...) as ExtractionResult\<close> is a compile-time cast only: at run time the
  value is whatever JSON value the text denotes. An object is its list of properties.
\<close>

datatype json =
    JNull
  | JBoolean bool
  | JNumber rat
  | JString string
  | JArray "json list"
  | JObject "(string \<times> json) list"

fun field :: "string \<Rightarrow> json \<Rightarrow> json option" where
  "field k (JObject kvs) = map_of kvs k"
| "field k _ = None"

fun elements :: "json option \<Rightarrow> json list" where
  "elements (Some (JArray vs)) = vs"
| "elements _ = []"

subsection \<open>The response schema passed to the collaborator (lines 152-202)\<close>

datatype schema =
    OBJECT "(string \<times> schema) list" "string list"
  | ARRAY schema
  | STRING
  | STRING_ENUM "string list"
  | NUMBER
  | BOOLEAN

definition roomSchema :: schema where
  "roomSchema = OBJECT [(''type'', STRING), (''price'', NUMBER)] [''type'', ''price'']"

definition activitySchema :: schema where
  "activitySchema =
     OBJECT [(''name'', STRING), (''price'', NUMBER), (''isIncluded'', BOOLEAN)]
            [''name'', ''price'', ''isIncluded'']"

definition resortSchema :: schema where
  "resortSchema =
     OBJECT [(''resortName'', STRING),
             (''currency'', STRING),
             (''locationType'', STRING_ENUM [''Component'', ''Bundle'']),
             (''rooms'', ARRAY roomSchema),
             (''activities'', ARRAY activitySchema)]
            [''resortName'', ''currency'', ''locationType'', ''rooms'', ''activities'']"

definition locationSchema :: schema where
  "locationSchema =
     OBJECT [(''name'', STRING), (''resorts'', ARRAY resortSchema)] [''name'', ''resorts'']"

definition responseSchema :: schema where
  "responseSchema = OBJECT [(''locations'', ARRAY locationSchema)] [''locations'']"

text \<open>
  What it means for a value to satisfy a schema: every required property is present,
  every declared property that is present has the declared type, an enum string is one
  of the listed literals.
\<close>

fun conforms :: "schema \<Rightarrow> json \<Rightarrow> bool" where
  "conforms (OBJECT props req) (JObject kvs) =
     ((\<forall>r \<in> set req. map_of kvs r \<noteq> None) \<and>
      (\<forall>(k, sch) \<in> set props.
          case map_of kvs k of None \<Rightarrow> True | Some v \<Rightarrow> conforms sch v))"
| "conforms (ARRAY items) (JArray vs) = (\<forall>v \<in> set vs. conforms items v)"
| "conforms STRING (JString s) = True"
| "conforms (STRING_ENUM enum) (JString s) = (s \<in> set enum)"
| "conforms NUMBER (JNumber n) = True"
| "conforms BOOLEAN (JBoolean b) = True"
| "conforms _ _ = False"

subsection \<open>Readings of a result that the specification talks about\<close>

definition locations_of :: "json \<Rightarrow> json list" where
  "locations_of r = elements (field ''locations'' r)"

definition resorts_of :: "json \<Rightarrow> json list" where
  "resorts_of r = concat (map (\<lambda>l. elements (field ''resorts'' l)) (locations_of r))"

definition nonempty_candidate :: "json \<Rightarrow> bool" where
  "nonempty_candidate r = list_ex (\<lambda>l. elements (field ''resorts'' l) \<noteq> []) (locations_of r)"

definition included_with_price :: "json \<Rightarrow> bool" where
  "included_with_price a =
     (field ''isIncluded'' a = Some (JBoolean True) \<and>
      (case field ''price'' a of Some (JNumber p) \<Rightarrow> 0 < p | _ \<Rightarrow> False))"

definition bundle_consistent :: "json \<Rightarrow> bool" where
  "bundle_consistent resort =
     (field ''locationType'' resort = Some (JString ''Bundle'') \<longrightarrow>
        \<not> list_ex included_with_price (elements (field ''activities'' resort)))"

definition classification_ok :: "json \<Rightarrow> bool" where
  "classification_ok r = list_all bundle_consistent (resorts_of r)"

subsection \<open>Files and component state (lines 55-59, 90-94)\<close>

datatype File = File (file_name: string) (file_size: nat)

datatype status = Pending | Processing | Completed | Error

record FileWithStatus =
  the_file :: File
  ident :: string
  status :: status

datatype tab = Preview | Json

record TravelDataAnalyst =
  files :: "FileWithStatus list"
  isProcessing :: bool
  result :: "json option"
  error :: "string option"
  activeTab :: tab

definition initial_state :: TravelDataAnalyst where
  "initial_state =
     \<lparr>files = [], isProcessing = False, result = None, error = None, activeTab = Preview\<rparr>"

subsection \<open>Collaborators\<close>

text \<open>
  A thrown value is read only through \<open>err.message\<close>, which may be absent (a
  \<open>ProgressEvent\<close> from the file reader has none). The collaborators throw or reject
  with objects (an \<open>Error\<close>, a \<open>ProgressEvent\<close>); a thrown \<open>null\<close> or \<open>undefined\<close> is
  outside the model.
\<close>

datatype thrown = Thrown (message: "string option")

datatype part = Text string | InlineData string string

datatype response = Response (response_text: "string option")

record request =
  model :: string
  contents :: "part list"
  responseMimeType :: string
  outputSchema :: schema

record env =
  fileToBase64 :: "File \<Rightarrow> thrown + string"
  GoogleGenAI :: "thrown + (request \<Rightarrow> thrown + response)"
  JSON_parse :: "string \<Rightarrow> thrown + json"

definition newline :: string where
  "newline = [CHR 0x0A]"

definition systemPrompt :: string where
  \<open>systemPrompt =
     ''You are a Senior Data Analyst. Convert the uploaded travel PDF documents into a single, structured JSON database.'' @ newline @
     newline @
     ''EXTRACTION RULES:'' @ newline @
     ''1. Location: Identify the country/location for each PDF.'' @ newline @
     ''2. Resorts: Group all data by Resort Name.'' @ newline @
     ''3. The 'Finland' Rule: In Finland PDFs, room rates and activities are often bundled. Extract the bundle price as the 'price' in the rooms array. List the included activities with a price of 0 and isIncluded=true.'' @ newline @
     ''4. The 'Maldives' Rule: Extract the room price and separate activities (like transfers, excursions, supplements) with their individual prices. isIncluded=false unless explicitly stated as part of the room rate.'' @ newline @
     ''5. Currency: Identify the currency for each resort (e.g., USD, EUR, AUD).'' @ newline @
     ''6. Stay Logic: Ensure 'Stay' costs (rooms) are clearly identified, as these are the only items subject to discounts.'' @ newline @
     ''7. Output: Strict JSON format matching the schema provided.'' @ newline @
     newline @
     ''The locationType should be "Bundle" if the Finland Rule is applied, and "Component" if the Maldives Rule is applied.''\<close>

section \<open>The handlers\<close>

subsection \<open>onFileChange and removeFile (lines 96-109)\<close>

text \<open>
  \<open>random_id i\<close> is the identifier drawn by \<open>Math.random\<close> for the \<open>i\<close>-th chosen file;
  \<open>None\<close> is \<open>e.target.files\<close> being null.
\<close>

definition onFileChange ::
  "(nat \<Rightarrow> string) \<Rightarrow> File list option \<Rightarrow> TravelDataAnalyst \<Rightarrow> TravelDataAnalyst" where
  "onFileChange random_id target_files s =
     (case target_files of
        None \<Rightarrow> s
      | Some chosen \<Rightarrow>
          let newFiles = map (\<lambda>(i, f). \<lparr>the_file = f, ident = random_id i, status = Pending\<rparr>)
                             (enumerate 0 chosen)
          in s\<lparr>files := files s @ newFiles\<rparr>)"

definition removeFile :: "string \<Rightarrow> TravelDataAnalyst \<Rightarrow> TravelDataAnalyst" where
  "removeFile i s = s\<lparr>files := filter (\<lambda>f. ident f \<noteq> i) (files s)\<rparr>"

subsection \<open>processDocuments (lines 111-215)\<close>

text \<open>The loop of lines 137-145: one awaited encoding per file, stopping at the first rejection.\<close>

fun encode_files ::
  "(File \<Rightarrow> thrown + string) \<Rightarrow> part list \<Rightarrow> FileWithStatus list \<Rightarrow> thrown + part list" where
  "encode_files enc parts [] = Inr parts"
| "encode_files enc parts (f # fs) =
     (case enc (the_file f) of
        Inl err \<Rightarrow> Inl err
      | Inr base64 \<Rightarrow> encode_files enc (parts @ [InlineData ''application/pdf'' base64]) fs)"

text \<open>The body of \<open>try\<close> up to and including \<open>JSON.parse\<close>: the value of \<open>extractedData\<close>, or what was thrown.\<close>

definition try_block :: "env \<Rightarrow> FileWithStatus list \<Rightarrow> thrown + json" where
  "try_block e fs =
     (case GoogleGenAI e of
        Inl err \<Rightarrow> Inl err
      | Inr generateContent \<Rightarrow>
          (case encode_files (fileToBase64 e) [Text systemPrompt] fs of
             Inl err \<Rightarrow> Inl err
           | Inr parts \<Rightarrow>
               (case generateContent
                       \<lparr>model = ''gemini-3-pro-preview'', contents = parts,
                        responseMimeType = ''application/json'', outputSchema = responseSchema\<rparr> of
                  Inl err \<Rightarrow> Inl err
                | Inr resp \<Rightarrow>
                    JSON_parse e
                      (case response_text resp of
                         None \<Rightarrow> ''{}''
                       | Some t \<Rightarrow> if t = [] then ''{}'' else t))))"

text \<open>Lines 114-116, run before anything is awaited.\<close>

definition processDocuments_begin :: "TravelDataAnalyst \<Rightarrow> TravelDataAnalyst" where
  "processDocuments_begin s = s\<lparr>isProcessing := True, error := None, result := None\<rparr>"

definition failure_message :: "thrown \<Rightarrow> string" where
  "failure_message err =
     (case message err of
        None \<Rightarrow> ''Failed to extract data. Ensure the files are valid PDFs and your API key is correct.''
      | Some m \<Rightarrow>
          if m = [] then ''Failed to extract data. Ensure the files are valid PDFs and your API key is correct.''
          else m)"

text \<open>
  Lines 207-214: what the rest of \<open>try\<close>, \<open>catch\<close> and \<open>finally\<close> do to the state that is
  current when the awaited calls have settled. \<open>setFiles\<close> takes an updater, so it maps
  over the current list, not over the list captured when the run began. The state
  \<open>result\<close> has type \<open>ExtractionResult | null\<close>: \<open>setResult\<close> of the value \<open>null\<close> (the text
  \<open>null\<close> parses to it) leaves the state that holds no result.
\<close>

definition stored :: "json \<Rightarrow> json option" where
  "stored v = (if v = JNull then None else Some v)"

definition processDocuments_settle ::
  "thrown + json \<Rightarrow> TravelDataAnalyst \<Rightarrow> TravelDataAnalyst" where
  "processDocuments_settle outcome s =
     (case outcome of
        Inr extractedData \<Rightarrow>
          s\<lparr>result := stored extractedData,
            files := map (\<lambda>f. f\<lparr>status := Completed\<rparr>) (files s),
            isProcessing := False\<rparr>
      | Inl err \<Rightarrow>
          s\<lparr>error := Some (failure_message err), isProcessing := False\<rparr>)"

text \<open>A whole run with no other event between its beginning and its end.\<close>

definition processDocuments :: "env \<Rightarrow> TravelDataAnalyst \<Rightarrow> TravelDataAnalyst" where
  "processDocuments e s =
     (if files s = [] then s
      else processDocuments_settle (try_block e (files s)) (processDocuments_begin s))"

subsection \<open>The component as a transition system\<close>

text \<open>
  \<open>processDocuments\<close> is asynchronous: between lines 116 and 207 other handlers may run.
  A configuration is the component state together with the runs that have begun and not
  yet settled, each with the \<open>files\<close> it captured when it was called.
\<close>

record config =
  ui :: TravelDataAnalyst
  inflight :: "FileWithStatus list list"

definition initial :: config where
  "initial = \<lparr>ui = initial_state, inflight = []\<rparr>"

text \<open>Calling \<open>processDocuments\<close>: line 112, then lines 114-116, then the first await.\<close>

definition call_processDocuments :: "config \<Rightarrow> config" where
  "call_processDocuments c =
     (if files (ui c) = [] then c
      else \<lparr>ui = processDocuments_begin (ui c), inflight = inflight c @ [files (ui c)]\<rparr>)"

text \<open>The \<open>k\<close>-th run in flight settles, its collaborators behaving as \<open>e\<close>.\<close>

definition settle :: "env \<Rightarrow> nat \<Rightarrow> config \<Rightarrow> config" where
  "settle e k c =
     (if k < length (inflight c)
      then \<lparr>ui = processDocuments_settle (try_block e (inflight c ! k)) (ui c),
            inflight = take k (inflight c) @ drop (Suc k) (inflight c)\<rparr>
      else c)"

text \<open>
  The events of the rendered page. Each is enabled when the element that fires it is
  rendered and not disabled: the Run button carries
  \<open>disabled={files.length === 0 || isProcessing}\<close> (line 317), the remove button exists
  once per listed file (line 305), the reset button inside \<open>{error && ...}\<close> (line 388),
  the tabs inside \<open>{result && ...}\<close> (line 406), the export button inside
  \<open>{result && ...}\<close> (line 244). \<open>&&\<close> renders its right side when the left is truthy.
\<close>

fun truthy :: "json \<Rightarrow> bool" where
  "truthy JNull = False"
| "truthy (JBoolean b) = b"
| "truthy (JNumber n) = (n \<noteq> 0)"
| "truthy (JString t) = (t \<noteq> [])"
| "truthy (JArray vs) = True"
| "truthy (JObject kvs) = True"

definition result_shown :: "TravelDataAnalyst \<Rightarrow> bool" where
  "result_shown s = (case result s of None \<Rightarrow> False | Some v \<Rightarrow> truthy v)"

definition error_shown :: "TravelDataAnalyst \<Rightarrow> bool" where
  "error_shown s = (case error s of None \<Rightarrow> False | Some m \<Rightarrow> m \<noteq> [])"

datatype event =
    FilesChosen "nat \<Rightarrow> string" "File list option"
  | RemoveClicked string
  | RunClicked
  | RunSettled env nat
  | ResetClicked
  | TabClicked tab
  | ExportClicked

definition run_disabled :: "TravelDataAnalyst \<Rightarrow> bool" where
  "run_disabled s = (files s = [] \<or> isProcessing s)"

fun enabled :: "event \<Rightarrow> config \<Rightarrow> bool" where
  "enabled (FilesChosen random_id target_files) c = True"
| "enabled (RemoveClicked i) c = list_ex (\<lambda>f. ident f = i) (files (ui c))"
| "enabled RunClicked c = (\<not> run_disabled (ui c))"
| "enabled (RunSettled e k) c = (k < length (inflight c))"
| "enabled ResetClicked c = error_shown (ui c)"
| "enabled (TabClicked t) c = result_shown (ui c)"
| "enabled ExportClicked c = result_shown (ui c)"

fun after :: "event \<Rightarrow> config \<Rightarrow> config" where
  "after (FilesChosen random_id target_files) c = c\<lparr>ui := onFileChange random_id target_files (ui c)\<rparr>"
| "after (RemoveClicked i) c = c\<lparr>ui := removeFile i (ui c)\<rparr>"
| "after RunClicked c = call_processDocuments c"
| "after (RunSettled e k) c = settle e k c"
| "after ResetClicked c = c\<lparr>ui := (ui c)\<lparr>error := None\<rparr>\<rparr>"
| "after (TabClicked t) c = c\<lparr>ui := (ui c)\<lparr>activeTab := t\<rparr>\<rparr>"
| "after ExportClicked c = c"

inductive reachable :: "config \<Rightarrow> bool" where
  start: "reachable initial"
| step: "reachable c \<Longrightarrow> enabled ev c \<Longrightarrow> reachable (after ev c)"

fun run_events :: "event list \<Rightarrow> config \<Rightarrow> config" where
  "run_events [] c = c"
| "run_events (ev # evs) c = run_events evs (after ev c)"

fun all_enabled :: "event list \<Rightarrow> config \<Rightarrow> bool" where
  "all_enabled [] c = True"
| "all_enabled (ev # evs) c = (enabled ev c \<and> all_enabled evs (after ev c))"

subsection \<open>formatCurrency (lines 75-85)\<close>

text \<open>
  A JavaScript string is its sequence of UTF-16 code units, here natural numbers, and its
  \<open>length\<close> counts them; \<open>utf16\<close> gives the units of an ASCII literal.

  \<open>String.prototype.toUpperCase\<close>, \<open>Intl.NumberFormat\<close> and the conversion of a number
  inside a template string belong to the platform. \<open>toUpperCase\<close> may change the length
  of a string. \<open>NumberFormat c\<close> is
  \<open>new Intl.NumberFormat('en-US', {style: 'currency', currency: c})\<close>: either it throws,
  or it gives the function \<open>format\<close>.

  The argument \<open>currency\<close> is whatever the caller read from the parsed result:
  \<open>undefined\<close>, \<open>null\<close>, a string, or another value (a number, a boolean, an array, an
  object), of which only the rendering inside a template string matters. On such a value
  \<open>currency?.toUpperCase\<close> is not a function, and calling it throws inside \<open>try\<close>.
\<close>

type_synonym js_string = "nat list"

definition utf16 :: "string \<Rightarrow> js_string" where
  "utf16 t = map of_char t"

datatype currency = Undefined | Null | Str js_string | NonString js_string

record 'n platform =
  toUpperCase :: "js_string \<Rightarrow> js_string"
  NumberFormat :: "js_string \<Rightarrow> thrown + ('n \<Rightarrow> js_string)"
  Number_toString :: "'n \<Rightarrow> js_string"

text \<open>\<open>currency?.toUpperCase()\<close>: \<open>None\<close> is the value \<open>undefined\<close> of the short-circuit.\<close>

definition upper_cased :: "'n platform \<Rightarrow> currency \<Rightarrow> thrown + js_string option" where
  "upper_cased p currency =
     (case currency of
        Undefined \<Rightarrow> Inr None
      | Null \<Rightarrow> Inr None
      | Str c \<Rightarrow> Inr (Some (toUpperCase p c))
      | NonString shown \<Rightarrow> Inl (Thrown (Some ''currency?.toUpperCase is not a function'')))"

text \<open>The template string of line 83.\<close>

definition template :: "'n platform \<Rightarrow> 'n \<Rightarrow> currency \<Rightarrow> js_string" where
  "template p amount currency =
     (case currency of
        Undefined \<Rightarrow> utf16 ''undefined''
      | Null \<Rightarrow> utf16 ''null''
      | Str c \<Rightarrow> c
      | NonString shown \<Rightarrow> shown)
     @ utf16 '' '' @ Number_toString p amount"

definition formatCurrency :: "'n platform \<Rightarrow> 'n \<Rightarrow> currency \<Rightarrow> js_string" where
  "formatCurrency p amount currency =
     (case upper_cased p currency of
        Inl err \<Rightarrow> template p amount currency
      | Inr upper \<Rightarrow>
          (let code = (case upper of
                         None \<Rightarrow> utf16 ''USD''
                       | Some u \<Rightarrow> if u = [] then utf16 ''USD'' else u)
           in case NumberFormat p (if length code = 3 then code else utf16 ''USD'') of
                Inr format \<Rightarrow> format amount
              | Inl err \<Rightarrow> template p amount currency))"

section \<open>Sample inputs\<close>

text \<open>
  Concrete files, states, candidates and collaborators on which the theorems below are
  evaluated. A collaborator \<open>replying t v\<close> encodes every file, answers with the text
  \<open>t\<close>, and its \<open>JSON.parse\<close> knows the two texts it can be given: \<open>{}\<close> and \<open>t\<close>, the
  latter denoting \<open>v\<close>.
\<close>

definition brochure :: File where
  "brochure = File ''finland.pdf'' 20480"

definition price_list :: File where
  "price_list = File ''maldives.pdf'' 51200"

definition queued :: FileWithStatus where
  "queued = \<lparr>the_file = price_list, ident = ''k3x9q0z1b'', status = Pending\<rparr>"

definition done_before :: FileWithStatus where
  "done_before = \<lparr>the_file = brochure, ident = ''a7c2m5p8w'', status = Completed\<rparr>"

definition parse_table :: "(string \<times> json) list \<Rightarrow> string \<Rightarrow> thrown + json" where
  "parse_table tbl s =
     (case map_of tbl s of
        Some v \<Rightarrow> Inr v
      | None \<Rightarrow> Inl (Thrown (Some ''Unexpected token'')))"

definition replying :: "string \<Rightarrow> json \<Rightarrow> env" where
  "replying t v =
     \<lparr>fileToBase64 = (\<lambda>f. Inr ''JVBERi0xLjQ=''),
      GoogleGenAI = Inr (\<lambda>req. Inr (Response (Some t))),
      JSON_parse = parse_table [(''{}'', JObject []), (t, v)]\<rparr>"

definition unavailable :: env where
  "unavailable =
     \<lparr>fileToBase64 = (\<lambda>f. Inr ''JVBERi0xLjQ=''),
      GoogleGenAI = Inr (\<lambda>req. Inl (Thrown (Some ''503 Service Unavailable''))),
      JSON_parse = parse_table [(''{}'', JObject [])]\<rparr>"

text \<open>Scenario A of the specification: a bundle resort whose amenities are included at price 0.\<close>

definition scenario_A_text :: string where
  \<open>scenario_A_text = ''{"locations":[{"name":"Finland","resorts":[{"resortName":"Resort X","currency":"EUR","locationType":"Bundle","rooms":[{"type":"Aurora","price":500}],"activities":[{"name":"breakfast","price":0,"isIncluded":true},{"name":"spa","price":0,"isIncluded":true}]}]}]}''\<close>

definition scenario_A :: json where
  "scenario_A =
     JObject [(''locations'', JArray [
       JObject [(''name'', JString ''Finland''),
                (''resorts'', JArray [
                   JObject [(''resortName'', JString ''Resort X''),
                            (''currency'', JString ''EUR''),
                            (''locationType'', JString ''Bundle''),
                            (''rooms'', JArray [
                               JObject [(''type'', JString ''Aurora''), (''price'', JNumber 500)]]),
                            (''activities'', JArray [
                               JObject [(''name'', JString ''breakfast''), (''price'', JNumber 0),
                                        (''isIncluded'', JBoolean True)],
                               JObject [(''name'', JString ''spa''), (''price'', JNumber 0),
                                        (''isIncluded'', JBoolean True)]])]])]])]"

text \<open>Scenario C: the resort has no \<open>currency\<close>.\<close>

definition no_currency_text :: string where
  \<open>no_currency_text = ''{"locations":[{"name":"Finland","resorts":[{"resortName":"Resort X","locationType":"Bundle","rooms":[{"type":"Aurora","price":500}],"activities":[]}]}]}''\<close>

definition no_currency :: json where
  "no_currency =
     JObject [(''locations'', JArray [
       JObject [(''name'', JString ''Finland''),
                (''resorts'', JArray [
                   JObject [(''resortName'', JString ''Resort X''),
                            (''locationType'', JString ''Bundle''),
                            (''rooms'', JArray [
                               JObject [(''type'', JString ''Aurora''), (''price'', JNumber 500)]]),
                            (''activities'', JArray [])]])]])]"

text \<open>A bundle resort with an included activity that carries a price.\<close>

definition priced_bundle_text :: string where
  \<open>priced_bundle_text = ''{"locations":[{"name":"Finland","resorts":[{"resortName":"Resort X","currency":"EUR","locationType":"Bundle","rooms":[{"type":"Aurora","price":500}],"activities":[{"name":"spa","price":50,"isIncluded":true}]}]}]}''\<close>

definition priced_bundle :: json where
  "priced_bundle =
     JObject [(''locations'', JArray [
       JObject [(''name'', JString ''Finland''),
                (''resorts'', JArray [
                   JObject [(''resortName'', JString ''Resort X''),
                            (''currency'', JString ''EUR''),
                            (''locationType'', JString ''Bundle''),
                            (''rooms'', JArray [
                               JObject [(''type'', JString ''Aurora''), (''price'', JNumber 500)]]),
                            (''activities'', JArray [
                               JObject [(''name'', JString ''spa''), (''price'', JNumber 50),
                                        (''isIncluded'', JBoolean True)]])]])]])]"

text \<open>An empty candidate.\<close>

definition no_locations_text :: string where
  \<open>no_locations_text = ''{"locations":[]}''\<close>

definition no_locations :: json where
  "no_locations = JObject [(''locations'', JArray [])]"

text \<open>States: one pending file; a completed file of an earlier run, its result, and a new pending file.\<close>

definition one_queued :: TravelDataAnalyst where
  "one_queued =
     \<lparr>files = [queued], isProcessing = False, result = None, error = None,
      activeTab = Preview\<rparr>"

definition mixed_queue :: TravelDataAnalyst where
  "mixed_queue =
     \<lparr>files = [done_before, queued], isProcessing = False, result = Some scenario_A,
      error = None, activeTab = Preview\<rparr>"

definition only_done :: TravelDataAnalyst where
  "only_done =
     \<lparr>files = [done_before], isProcessing = False, result = Some scenario_A,
      error = None, activeTab = Preview\<rparr>"

text \<open>Two sessions at the page: a run in flight; and a second run in flight after a first that succeeded.\<close>

definition first_run :: "event list" where
  "first_run = [FilesChosen (\<lambda>i. ''a7c2m5p8w'') (Some [brochure]), RunClicked]"

definition second_run :: "event list" where
  "second_run =
     first_run @
     [RunSettled (replying scenario_A_text scenario_A) 0,
      FilesChosen (\<lambda>i. ''k3x9q0z1b'') (Some [price_list]),
      RunClicked]"

text \<open>
  A stand-in for the platform on whole amounts. Upper-casing is cut down to the ASCII
  letters and to the sharp s (code unit 223), which becomes two letters; the constructor
  throws unless the code is three ASCII letters, as ECMA-402 prescribes; US dollars print
  as the \<open>en-US\<close> locale prints them; the table of currency symbols is cut down to the
  dollar, any other code is printed as the code itself followed by a no-break space
  (code unit 160).
\<close>

fun decimal :: "nat \<Rightarrow> string" where
  "decimal n =
     (if n < 10 then [''0123456789'' ! n]
      else decimal (n div 10) @ [''0123456789'' ! (n mod 10)])"

fun grouped :: "string \<Rightarrow> string" where
  "grouped ds =
     (if length ds \<le> 3 then ds
      else grouped (take (length ds - 3) ds) @ '','' @ drop (length ds - 3) ds)"

definition upper_unit :: "nat \<Rightarrow> js_string" where
  "upper_unit u =
     (if 97 \<le> u \<and> u \<le> 122 then [u - 32]
      else if u = 223 then [83, 83]
      else [u])"

definition ascii_letter :: "nat \<Rightarrow> bool" where
  "ascii_letter u = ((65 \<le> u \<and> u \<le> 90) \<or> (97 \<le> u \<and> u \<le> 122))"

definition en_US :: "nat platform" where
  "en_US =
     \<lparr>toUpperCase = (\<lambda>c. concat (map upper_unit c)),
      NumberFormat =
        (\<lambda>c. if length c = 3 \<and> list_all ascii_letter c
              then Inr (\<lambda>n. (if concat (map upper_unit c) = utf16 ''USD'' then utf16 ''$''
                               else concat (map upper_unit c) @ [160])
                              @ utf16 (grouped (decimal n)) @ utf16 ''.00'')
              else Inl (Thrown (Some ''Invalid currency code''))),
      Number_toString = (\<lambda>n. utf16 (decimal n))\<rparr>"

section \<open>Auxiliary facts\<close>

lemmas handler_defs =
  onFileChange_def removeFile_def call_processDocuments_def settle_def
  processDocuments_begin_def processDocuments_settle_def run_disabled_def

lemma processDocuments_success:
  assumes "files s \<noteq> []" and "try_block e (files s) = Inr j"
  shows "processDocuments e s =
           s\<lparr>isProcessing := False, error := None, result := stored j,
             files := map (\<lambda>f. f\<lparr>status := Completed\<rparr>) (files s)\<rparr>"
  using assms
  by (simp add: processDocuments_def processDocuments_begin_def processDocuments_settle_def)

lemma processDocuments_failure:
  assumes "files s \<noteq> []" and "try_block e (files s) = Inl err"
  shows "processDocuments e s =
           s\<lparr>isProcessing := False, error := Some (failure_message err), result := None\<rparr>"
  using assms
  by (simp add: processDocuments_def processDocuments_begin_def processDocuments_settle_def)

text \<open>
  The run of \<open>processDocuments\<close> with nothing in between is the call followed at once by
  the settling of the run it put in flight.
\<close>

lemma processDocuments_call_then_settle:
  "inflight c = [] \<Longrightarrow> ui (settle e 0 (call_processDocuments c)) = processDocuments e (ui c)"
  by (simp add: settle_def call_processDocuments_def processDocuments_def)

lemma try_block_replying:
  assumes t: "t \<noteq> []" "t \<noteq> ''{}''"
  shows "try_block (replying t v) fs = Inr v"
proof -
  have enc: "\<And>parts. \<exists>ps. encode_files (\<lambda>f. Inr ''JVBERi0xLjQ='') parts fs = Inr ps"
    by (induction fs) auto
  obtain ps where "encode_files (\<lambda>f. Inr ''JVBERi0xLjQ='') [Text systemPrompt] fs = Inr ps"
    using enc by blast
  then show ?thesis using t
    by (simp add: try_block_def replying_def parse_table_def)
qed

lemma try_block_unavailable:
  "try_block unavailable fs = Inl (Thrown (Some ''503 Service Unavailable''))"
proof -
  have enc: "\<And>parts. \<exists>ps. encode_files (\<lambda>f. Inr ''JVBERi0xLjQ='') parts fs = Inr ps"
    by (induction fs) auto
  obtain ps where "encode_files (\<lambda>f. Inr ''JVBERi0xLjQ='') [Text systemPrompt] fs = Inr ps"
    using enc by blast
  then show ?thesis
    by (simp add: try_block_def unavailable_def)
qed

lemma reachable_invariant:
  assumes "reachable c"
  shows "(\<forall>f \<in> set (files (ui c)). status f = Pending \<or> status f = Completed) \<and>
         length (inflight c) \<le> 1 \<and>
         (isProcessing (ui c) \<longleftrightarrow> inflight c \<noteq> []) \<and>
         (inflight c \<noteq> [] \<longrightarrow> result (ui c) = None)"
  using assms
proof (induction rule: reachable.induct)
  case start
  show ?case by (simp add: initial_def initial_state_def)
next
  case (step c ev)
  then show ?case
    by (cases ev)
       (auto simp: handler_defs Let_def split: option.splits sum.splits if_splits)
qed

lemma reachable_run_events:
  "reachable c \<Longrightarrow> all_enabled evs c \<Longrightarrow> reachable (run_events evs c)"
  by (induction evs arbitrary: c) (auto intro: reachable.step)

lemma first_run_config:
  "run_events first_run initial =
     \<lparr>ui = \<lparr>files = [\<lparr>the_file = brochure, ident = ''a7c2m5p8w'', status = Pending\<rparr>],
             isProcessing = True, result = None, error = None, activeTab = Preview\<rparr>,
      inflight = [[\<lparr>the_file = brochure, ident = ''a7c2m5p8w'', status = Pending\<rparr>]]\<rparr>"
  by (simp add: first_run_def initial_def initial_state_def handler_defs)

lemma first_run_enabled: "all_enabled first_run initial"
  by (simp add: first_run_def initial_def initial_state_def handler_defs)

lemma second_run_config:
  "run_events second_run initial =
     \<lparr>ui = \<lparr>files = [done_before, queued],
             isProcessing = True, result = None, error = None, activeTab = Preview\<rparr>,
      inflight = [[done_before, queued]]\<rparr>"
  by (simp add: second_run_def first_run_def initial_def initial_state_def handler_defs
        try_block_replying scenario_A_text_def done_before_def queued_def brochure_def price_list_def)

lemma second_run_enabled: "all_enabled second_run initial"
  by (simp add: second_run_def first_run_def initial_def initial_state_def handler_defs
        try_block_replying scenario_A_text_def)

lemma after_statuses:
  "f \<in> set (files (ui (after ev c))) \<Longrightarrow>
     f \<in> set (files (ui c)) \<or> status f = Pending \<or> status f = Completed"
  by (cases ev)
     (auto simp: handler_defs Let_def split: option.splits sum.splits if_splits)

lemma try_block_scenario_A:
  "try_block (replying scenario_A_text scenario_A) fs = Inr scenario_A"
  by (rule try_block_replying) (simp_all add: scenario_A_text_def)

lemma one_queued_nonempty: "files one_queued \<noteq> []"
  by (simp add: one_queued_def)

lemma try_block_null:
  "try_block (replying ''null'' JNull) fs = Inr JNull"
  by (rule try_block_replying) simp_all

lemma scenario_A_not_null: "scenario_A \<noteq> JNull"
  by (simp add: scenario_A_def)

lemma classification_ok_null: "classification_ok JNull"
  by (simp add: classification_ok_def resorts_of_def locations_of_def)

lemma nonempty_candidate_not_null: "nonempty_candidate j \<Longrightarrow> j \<noteq> JNull"
  by (auto simp: nonempty_candidate_def locations_of_def)

lemma filter_ident_restatus:
  "filter (\<lambda>f. ident f \<noteq> i) (map (\<lambda>f. f\<lparr>status := g f\<rparr>) fs) =
   map (\<lambda>f. f\<lparr>status := g f\<rparr>) (filter (\<lambda>f. ident f \<noteq> i) fs)"
  by (induction fs) simp_all

lemma classification_ok_scenario_A: "classification_ok scenario_A"
  by (simp add: scenario_A_def classification_ok_def resorts_of_def locations_of_def
        bundle_consistent_def included_with_price_def)

lemma nonempty_scenario_A: "nonempty_candidate scenario_A"
  by (simp add: scenario_A_def nonempty_candidate_def locations_of_def)

section \<open>The claims\<close>

text \<open>
  C1. A run of \<open>processDocuments\<close> over a non-empty file list, with no other event in
  between, changes the lifecycle states all together or not at all: if it succeeds every
  file is the file it was with state \<open>completed\<close>; if it fails at any stage (a collaborator
  or \<open>JSON.parse\<close> throws) the file list is exactly what it was, so no file reaches
  \<open>error\<close>.
\<close>

theorem processDocuments_statuses:
  assumes "files s \<noteq> []"
  shows "case try_block e (files s) of
           Inr j \<Rightarrow> files (processDocuments e s) = map (\<lambda>f. f\<lparr>status := Completed\<rparr>) (files s)
         | Inl err \<Rightarrow> files (processDocuments e s) = files s"
  using assms
  by (simp add: processDocuments_success processDocuments_failure split: sum.split)

theorem processDocuments_statuses_witness:
  "files mixed_queue \<noteq> [] \<and>
   map status (files (processDocuments (replying scenario_A_text scenario_A) mixed_queue))
     = [Completed, Completed] \<and>
   files (processDocuments unavailable mixed_queue) = files mixed_queue"
  using processDocuments_statuses [of mixed_queue "replying scenario_A_text scenario_A"]
        processDocuments_statuses [of mixed_queue unavailable]
  by (simp add: try_block_scenario_A try_block_unavailable mixed_queue_def)

text \<open>
  As the specification states it, C1 fails: after a failed run over a completed and a
  pending file the states are still \<open>completed\<close> and \<open>pending\<close>.
\<close>

theorem failed_run_leaves_statuses:
  "map status (files (processDocuments unavailable mixed_queue)) = [Completed, Pending] \<and>
   error (processDocuments unavailable mixed_queue) = Some ''503 Service Unavailable''"
  by (simp add: processDocuments_failure [where err = "Thrown (Some ''503 Service Unavailable'')"]
        try_block_unavailable mixed_queue_def done_before_def queued_def failure_message_def)

text \<open>
  C2. The run stores the value that \<open>JSON.parse\<close> returns for the collaborator's text,
  whatever its shape, and reports no error: every candidate but the value \<open>null\<close> is
  published as it is, and \<open>null\<close> leaves nothing published. The run reports an error
  message exactly when a stage throws, and then nothing is published.
\<close>

theorem processDocuments_publishes_unvalidated:
  assumes "files s \<noteq> []"
  shows "case try_block e (files s) of
           Inr j \<Rightarrow> result (processDocuments e s) = (if j = JNull then None else Some j) \<and>
                    error (processDocuments e s) = None
         | Inl err \<Rightarrow> result (processDocuments e s) = None \<and>
                      error (processDocuments e s) = Some (failure_message err)"
  using assms
  by (simp add: processDocuments_success processDocuments_failure stored_def split: sum.split)

theorem processDocuments_publishes_unvalidated_witness:
  "files one_queued \<noteq> [] \<and>
   result (processDocuments (replying scenario_A_text scenario_A) one_queued) = Some scenario_A \<and>
   error (processDocuments (replying scenario_A_text scenario_A) one_queued) = None \<and>
   result (processDocuments (replying ''null'' JNull) one_queued) = None \<and>
   error (processDocuments (replying ''null'' JNull) one_queued) = None \<and>
   result (processDocuments unavailable one_queued) = None \<and>
   error (processDocuments unavailable one_queued) = Some ''503 Service Unavailable''"
  using processDocuments_publishes_unvalidated [of one_queued "replying scenario_A_text scenario_A"]
        processDocuments_publishes_unvalidated [of one_queued "replying ''null'' JNull"]
        processDocuments_publishes_unvalidated [of one_queued unavailable]
  by (simp add: try_block_scenario_A try_block_null try_block_unavailable one_queued_nonempty
        scenario_A_not_null failure_message_def)

text \<open>
  As stated, C2 fails: a candidate whose resort has no \<open>currency\<close> does not satisfy the
  schema, and is published without an error.
\<close>

theorem missing_currency_is_published:
  "result (processDocuments (replying no_currency_text no_currency) one_queued) = Some no_currency \<and>
   error (processDocuments (replying no_currency_text no_currency) one_queued) = None \<and>
   conforms responseSchema no_currency = False"
  by (simp add: processDocuments_success [where j = no_currency] stored_def
        try_block_replying no_currency_text_def one_queued_def no_currency_def
        responseSchema_def locationSchema_def resortSchema_def)

text \<open>
  C3. What the run publishes is the raw candidate itself, unchanged: no \<open>locationType\<close> is
  corrected and no item is dropped or altered (the candidate \<open>null\<close> alone leaves nothing
  published). So the published result satisfies the classification invariant exactly when
  the candidate does, and every candidate that violates it is published as it came.
\<close>

theorem processDocuments_keeps_classification:
  assumes "files s \<noteq> []" and "try_block e (files s) = Inr j"
  shows "result (processDocuments e s) = (if j = JNull then None else Some j) \<and>
         (\<forall>r. result (processDocuments e s) = Some r \<longrightarrow>
              r = j \<and> classification_ok r = classification_ok j) \<and>
         (\<not> classification_ok j \<longrightarrow> result (processDocuments e s) = Some j)"
  using assms classification_ok_null
  by (auto simp: processDocuments_success stored_def)

theorem processDocuments_keeps_classification_witness:
  "files one_queued \<noteq> [] \<and>
   try_block (replying scenario_A_text scenario_A) (files one_queued) = Inr scenario_A \<and>
   result (processDocuments (replying scenario_A_text scenario_A) one_queued) = Some scenario_A \<and>
   classification_ok scenario_A"
proof -
  have tried: "try_block (replying scenario_A_text scenario_A) (files one_queued) = Inr scenario_A"
    by (rule try_block_scenario_A)
  have "result (processDocuments (replying scenario_A_text scenario_A) one_queued) =
          (if scenario_A = JNull then None else Some scenario_A)"
    using processDocuments_keeps_classification [OF one_queued_nonempty tried] by (rule conjunct1)
  then have "result (processDocuments (replying scenario_A_text scenario_A) one_queued) =
               Some scenario_A"
    by (simp only: scenario_A_not_null if_False)
  then show ?thesis
    using one_queued_nonempty tried classification_ok_scenario_A by blast
qed

text \<open>
  As stated, C3 fails: a \<open>Bundle\<close> resort with an included activity priced 50 is published
  as it came, still classified \<open>Bundle\<close>.
\<close>

theorem priced_bundle_is_published:
  "result (processDocuments (replying priced_bundle_text priced_bundle) one_queued)
     = Some priced_bundle \<and>
   map (field ''locationType'') (resorts_of priced_bundle) = [Some (JString ''Bundle'')] \<and>
   classification_ok priced_bundle = False"
  by (simp add: processDocuments_success [where j = priced_bundle] stored_def
        try_block_replying priced_bundle_text_def one_queued_def priced_bundle_def
        classification_ok_def resorts_of_def locations_of_def bundle_consistent_def
        included_with_price_def)

text \<open>
  C4. A run whose stages do not throw reports no error, whether the candidate is empty or
  not, and what it publishes is the candidate itself, with exactly the candidate's
  locations (the candidate \<open>null\<close> alone leaves nothing published). A non-empty candidate
  is always published, so the run never publishes locations of size 0 when the
  collaborator returned a non-empty candidate.
\<close>

theorem processDocuments_keeps_locations:
  assumes "files s \<noteq> []" and "try_block e (files s) = Inr j"
  shows "result (processDocuments e s) = (if j = JNull then None else Some j) \<and>
         error (processDocuments e s) = None \<and>
         (\<forall>r. result (processDocuments e s) = Some r \<longrightarrow>
              r = j \<and> locations_of r = locations_of j) \<and>
         (nonempty_candidate j \<longrightarrow>
            result (processDocuments e s) = Some j \<and> locations_of j \<noteq> [])"
  using assms nonempty_candidate_not_null [of j]
  by (auto simp: processDocuments_success stored_def nonempty_candidate_def list_ex_iff)

theorem processDocuments_keeps_locations_witness:
  "files one_queued \<noteq> [] \<and>
   try_block (replying scenario_A_text scenario_A) (files one_queued) = Inr scenario_A \<and>
   nonempty_candidate scenario_A \<and>
   result (processDocuments (replying scenario_A_text scenario_A) one_queued) = Some scenario_A \<and>
   locations_of scenario_A \<noteq> []"
proof -
  have tried: "try_block (replying scenario_A_text scenario_A) (files one_queued) = Inr scenario_A"
    by (rule try_block_scenario_A)
  have "nonempty_candidate scenario_A \<longrightarrow>
          result (processDocuments (replying scenario_A_text scenario_A) one_queued) =
            Some scenario_A \<and> locations_of scenario_A \<noteq> []"
    using processDocuments_keeps_locations [OF one_queued_nonempty tried] by blast
  then have "result (processDocuments (replying scenario_A_text scenario_A) one_queued) =
               Some scenario_A \<and> locations_of scenario_A \<noteq> []"
    using nonempty_scenario_A by (rule mp)
  then show ?thesis
    using one_queued_nonempty tried nonempty_scenario_A by blast
qed

text \<open>
  As stated, C4 fails: the empty candidate is published, with no error.
\<close>

theorem empty_candidate_is_published:
  "result (processDocuments (replying no_locations_text no_locations) one_queued)
     = Some no_locations \<and>
   error (processDocuments (replying no_locations_text no_locations) one_queued) = None \<and>
   nonempty_candidate no_locations = False \<and>
   length (locations_of no_locations) = 0"
  by (simp add: processDocuments_success [where j = no_locations] stored_def
        try_block_replying no_locations_text_def one_queued_def no_locations_def
        nonempty_candidate_def locations_of_def)

text \<open>
  C5. \<open>processDocuments\<close> itself never rejects a call. Re-entry is kept out by the Run
  button, which is disabled while \<open>isProcessing\<close> is true: in every configuration reached
  through the events of the page at most one run is in flight, \<open>isProcessing\<close> is true
  exactly while one is, and the Run button is then disabled.
\<close>

theorem run_button_single_flight:
  assumes "reachable c"
  shows "length (inflight c) \<le> 1 \<and>
         (isProcessing (ui c) \<longleftrightarrow> inflight c \<noteq> []) \<and>
         (inflight c \<noteq> [] \<longrightarrow> run_disabled (ui c) \<and> \<not> enabled RunClicked c)"
  using reachable_invariant [OF assms] by (simp add: run_disabled_def)

theorem run_button_single_flight_witness:
  "reachable (run_events first_run initial) \<and>
   length (inflight (run_events first_run initial)) = 1 \<and>
   isProcessing (ui (run_events first_run initial)) \<and>
   run_disabled (ui (run_events first_run initial))"
  using run_button_single_flight [of "run_events first_run initial"]
        reachable_run_events [OF reachable.start first_run_enabled]
  by (simp add: first_run_config)

text \<open>
  As stated, C5 fails: called while a run is in flight, \<open>processDocuments\<close> begins a second
  run beside the first.
\<close>

theorem second_call_is_accepted:
  "inflight (call_processDocuments (call_processDocuments \<lparr>ui = one_queued, inflight = []\<rparr>))
     = [[queued], [queued]]"
  by (simp add: call_processDocuments_def processDocuments_begin_def one_queued_def)

text \<open>
  C6. With an empty file list \<open>processDocuments\<close> returns at once: the configuration is
  what it was (no file state, result, error message or flag changes, and no run begins,
  so no collaborator is called), whatever the collaborators would have done. The Run
  button is disabled in that state.
\<close>

theorem processDocuments_empty_batch:
  assumes "files (ui c) = []"
  shows "call_processDocuments c = c \<and> processDocuments e (ui c) = ui c \<and> run_disabled (ui c)"
  using assms by (simp add: call_processDocuments_def processDocuments_def run_disabled_def)

theorem processDocuments_empty_batch_witness:
  "files (ui initial) = [] \<and> call_processDocuments initial = initial \<and>
   processDocuments unavailable (ui initial) = ui initial"
  using processDocuments_empty_batch [of initial unavailable]
  by (simp add: initial_def initial_state_def)

text \<open>
  As stated, C6 fails: the call on an empty list leaves the error message null, so no
  error is surfaced.
\<close>

theorem empty_batch_is_silent:
  "processDocuments unavailable initial_state = initial_state \<and>
   error (processDocuments unavailable initial_state) = None"
  by (simp add: processDocuments_def initial_state_def)

text \<open>
  C7. \<open>removeFile\<close> leaves in the list, in their order and as often as they occurred,
  exactly the files whose identifier is not the given one, and changes nothing else of
  the state. It does so whatever the lifecycle states are: removing commutes with any
  change of the files' states.
\<close>

theorem removeFile_any_status:
  "files (removeFile i s) = filter (\<lambda>f. ident f \<noteq> i) (files s) \<and>
   isProcessing (removeFile i s) = isProcessing s \<and>
   result (removeFile i s) = result s \<and>
   error (removeFile i s) = error s \<and>
   activeTab (removeFile i s) = activeTab s \<and>
   removeFile i (s\<lparr>files := map (\<lambda>f. f\<lparr>status := g f\<rparr>) (files s)\<rparr>) =
     (removeFile i s)\<lparr>files := map (\<lambda>f. f\<lparr>status := g f\<rparr>) (files (removeFile i s))\<rparr>"
  by (simp add: removeFile_def filter_ident_restatus)

theorem removeFile_any_status_witness:
  "files (removeFile ''a7c2m5p8w'' mixed_queue) = [queued] \<and>
   files (removeFile ''k3x9q0z1b'' mixed_queue) = [done_before] \<and>
   activeTab (removeFile ''a7c2m5p8w'' mixed_queue) = Preview \<and>
   result (removeFile ''a7c2m5p8w'' mixed_queue) = Some scenario_A"
  using removeFile_any_status [of "''a7c2m5p8w''" mixed_queue]
        removeFile_any_status [of "''k3x9q0z1b''" mixed_queue]
  by (simp add: mixed_queue_def done_before_def queued_def)

text \<open>
  As stated, C7 fails: a completed file is removed.
\<close>

theorem completed_file_is_removed:
  "status done_before = Completed \<and> files only_done = [done_before] \<and>
   files (removeFile ''a7c2m5p8w'' only_done) = []"
  by (simp add: removeFile_def only_done_def done_before_def)

text \<open>
  C8. For a string token \<open>formatCurrency\<close> asks the platform for the \<open>en-US\<close> currency
  format of the upper-cased token when the upper-cased token has exactly three code
  units, and of \<open>USD\<close> in every other case (also for a missing token); it returns
  \<open><currency> <amount>\<close> only when the platform throws for the code so chosen, or when the
  token is a value that is not a string. It is a function of its two arguments alone, so
  no stored data is altered.
\<close>

theorem formatCurrency_by_length:
  "formatCurrency p amount (Str c) =
     (case NumberFormat p (if length (toUpperCase p c) = 3 then toUpperCase p c
                           else utf16 ''USD'') of
        Inr format \<Rightarrow> format amount
      | Inl err \<Rightarrow> c @ utf16 '' '' @ Number_toString p amount) \<and>
   formatCurrency p amount Undefined =
     (case NumberFormat p (utf16 ''USD'') of
        Inr format \<Rightarrow> format amount
      | Inl err \<Rightarrow> utf16 ''undefined '' @ Number_toString p amount) \<and>
   formatCurrency p amount Null =
     (case NumberFormat p (utf16 ''USD'') of
        Inr format \<Rightarrow> format amount
      | Inl err \<Rightarrow> utf16 ''null '' @ Number_toString p amount) \<and>
   formatCurrency p amount (NonString shown) = shown @ utf16 '' '' @ Number_toString p amount"
  by (simp add: formatCurrency_def upper_cased_def template_def utf16_def split: sum.split)

theorem formatCurrency_by_length_witness:
  "formatCurrency en_US 1250 (Str (utf16 ''usd'')) = utf16 ''$1,250.00'' \<and>
   formatCurrency en_US 5 (Str (utf16 ''12$'')) = utf16 ''12$ 5'' \<and>
   formatCurrency en_US 5 (Str [223, 97]) = utf16 ''SSA'' @ [160] @ utf16 ''5.00'' \<and>
   formatCurrency en_US 5 Undefined = utf16 ''$5.00'' \<and>
   formatCurrency en_US 5 (NonString (utf16 ''7'')) = utf16 ''7 5''"
  using formatCurrency_by_length [of en_US 1250 "utf16 ''usd''"]
        formatCurrency_by_length [of en_US 5 "utf16 ''12$''"]
        formatCurrency_by_length [of en_US 5 "[223, 97]"]
        formatCurrency_by_length [of en_US 5 c "utf16 ''7''" for c]
  by (simp add: en_US_def upper_unit_def ascii_letter_def utf16_def)

text \<open>
  As stated, C8 fails: \<open>EURO\<close> is not a three-letter code, and the amount is formatted in
  dollars instead of as \<open>EURO 5\<close>.
\<close>

theorem long_token_formats_as_dollars:
  "formatCurrency en_US 5 (Str (utf16 ''EURO'')) = utf16 ''$5.00'' \<and>
   template en_US 5 (Str (utf16 ''EURO'')) = utf16 ''EURO 5''"
  by (simp add: formatCurrency_def upper_cased_def template_def en_US_def upper_unit_def
        ascii_letter_def utf16_def)

text \<open>
  C9. In every configuration reached through the events of the page, every file's status
  is \<open>pending\<close> or \<open>completed\<close>. No event gives a file another status: a file listed after
  an event was listed before it or is \<open>pending\<close> or \<open>completed\<close>; the files added by
  \<open>onFileChange\<close> are \<open>pending\<close>; after a run has settled with success all files are
  \<open>completed\<close>.
\<close>

theorem status_pending_or_completed:
  "(reachable c \<longrightarrow> (\<forall>f \<in> set (files (ui c)). status f = Pending \<or> status f = Completed)) \<and>
   (\<forall>f \<in> set (files (ui (after ev c'))).
       f \<in> set (files (ui c')) \<or> status f = Pending \<or> status f = Completed) \<and>
   (\<forall>f \<in> set (files (onFileChange random_id target_files s)).
       f \<in> set (files s) \<or> status f = Pending) \<and>
   (\<forall>f \<in> set (files (processDocuments_settle (Inr j) s')). status f = Completed)"
proof (intro conjI impI)
  assume "reachable c"
  then show "\<forall>f \<in> set (files (ui c)). status f = Pending \<or> status f = Completed"
    using reachable_invariant by blast
next
  show "\<forall>f \<in> set (files (ui (after ev c'))).
          f \<in> set (files (ui c')) \<or> status f = Pending \<or> status f = Completed"
    using after_statuses by blast
next
  show "\<forall>f \<in> set (files (onFileChange random_id target_files s)).
          f \<in> set (files s) \<or> status f = Pending"
    by (auto simp: onFileChange_def Let_def split: option.splits)
next
  show "\<forall>f \<in> set (files (processDocuments_settle (Inr j) s')). status f = Completed"
    by (auto simp: processDocuments_settle_def)
qed

theorem status_pending_or_completed_witness:
  "reachable (run_events second_run initial) \<and>
   list_all (\<lambda>f. status f = Pending \<or> status f = Completed)
     (files (ui (run_events second_run initial))) \<and>
   map status (files (ui (run_events second_run initial))) = [Completed, Pending] \<and>
   map status (files (onFileChange (\<lambda>i. ''k3x9q0z1b'') (Some [price_list]) only_done))
     = [Completed, Pending] \<and>
   list_all (\<lambda>f. status f = Completed)
     (files (processDocuments_settle (Inr scenario_A) mixed_queue))"
  using status_pending_or_completed
          [where c = "run_events second_run initial" and random_id = "\<lambda>i. ''k3x9q0z1b''"
             and target_files = "Some [price_list]" and s = only_done and j = scenario_A
             and s' = mixed_queue]
        reachable_run_events [OF reachable.start second_run_enabled]
  by (simp add: second_run_config list_all_iff done_before_def queued_def only_done_def
        onFileChange_def)

text \<open>
  C10. A call of \<open>processDocuments\<close> on a non-empty file list sets the published result
  and the error message to null as the run goes in flight, before any collaborator has
  answered. So after a failed run the result is null, whatever was published before:
  for a run with nothing in between, and for any run in flight in a configuration reached
  through the events of the page.
\<close>

theorem processDocuments_clears_result:
  "(files (ui c) \<noteq> [] \<longrightarrow>
      result (ui (call_processDocuments c)) = None \<and>
      error (ui (call_processDocuments c)) = None \<and>
      inflight (call_processDocuments c) = inflight c @ [files (ui c)] \<and>
      (try_block e (files (ui c)) = Inl err \<longrightarrow> result (processDocuments e (ui c)) = None)) \<and>
   (reachable c' \<longrightarrow> k < length (inflight c') \<longrightarrow> try_block e' (inflight c' ! k) = Inl err' \<longrightarrow>
      result (ui (settle e' k c')) = None)"
proof (intro conjI impI)
  assume "reachable c'" and k: "k < length (inflight c')"
    and failed: "try_block e' (inflight c' ! k) = Inl err'"
  then have "result (ui c') = None"
    using reachable_invariant [of c'] by auto
  then show "result (ui (settle e' k c')) = None"
    using k failed by (simp add: settle_def processDocuments_settle_def)
qed (simp_all add: call_processDocuments_def processDocuments_begin_def processDocuments_failure)

theorem processDocuments_clears_result_witness:
  "files (ui \<lparr>ui = mixed_queue, inflight = []\<rparr>) \<noteq> [] \<and>
   result mixed_queue = Some scenario_A \<and>
   try_block unavailable (files mixed_queue) = Inl (Thrown (Some ''503 Service Unavailable'')) \<and>
   result (processDocuments unavailable mixed_queue) = None \<and>
   reachable (run_events second_run initial) \<and>
   0 < length (inflight (run_events second_run initial)) \<and>
   result (ui (settle unavailable 0 (run_events second_run initial))) = None"
  using processDocuments_clears_result
          [of "\<lparr>ui = mixed_queue, inflight = []\<rparr>" unavailable
              "Thrown (Some ''503 Service Unavailable'')"
              "run_events second_run initial" 0 unavailable
              "Thrown (Some ''503 Service Unavailable'')"]
        reachable_run_events [OF reachable.start second_run_enabled]
        try_block_unavailable
  by (simp add: second_run_config mixed_queue_def)

end
